theory Spec2Isabelle
  imports Complex_Main "HOL-Library.Word" "HOL-Library.Sublist"
begin

unbundle bit_operations_syntax

section \<open>Model Manager (src/services/core/ModelManager.ts)\<close>

text \<open>
  A JavaScript \<open>Error\<close> is a value of the datatype \<open>error\<close>; each constructor stands for
  one \<open>throw new Error(...)\<close> of the sources, the template argument of the message kept as
  the constructor's argument.
\<close>

datatype error =
    Model_not_found string          \<comment> \<open>\<open>Model ${modelId} not found\<close>\<close>
  | Model_not_downloaded string     \<comment> \<open>\<open>Model ${modelId} not downloaded\<close>\<close>
  | Download_failed int             \<comment> \<open>\<open>Download failed with status ${statusCode}\<close>\<close>
  | RAG_Engine_not_initialized      \<comment> \<open>\<open>RAG Engine not initialized\<close>\<close>
  | Database_not_initialized        \<comment> \<open>\<open>Database not initialized\<close>\<close>
  | Pipeline_not_initialized        \<comment> \<open>\<open>Pipeline not initialized\<close>\<close>
  | Model_not_initialized           \<comment> \<open>\<open>Model not initialized\<close> (ExecuTorchService.generate)\<close>

datatype model_type = LLM | ASR | TTS

text \<open>The interface \<open>ModelInfo\<close> of \<open>types/index.ts\<close>; the sizes are whole numbers of MB.\<close>

record ModelInfo =
  m_id :: string
  m_name :: string
  m_type :: model_type
  sizeMB :: int
  ramRequiredMB :: int
  m_path :: string
  downloaded :: bool
  loaded :: bool

definition MODELS_CONFIG :: "ModelInfo list" where
  "MODELS_CONFIG =
    [ \<lparr> m_id = ''llama-3.2-1b-thai'', m_name = ''Llama 3.2 1B (Thai-ready)'', m_type = LLM,
        sizeMB = 600, ramRequiredMB = 800, m_path = ''models/llm/llama-3.2-1b-q4.pte'',
        downloaded = False, loaded = False \<rparr>,
      \<lparr> m_id = ''whisper-small-thai'', m_name = ''Whisper Small Thai'', m_type = ASR,
        sizeMB = 244, ramRequiredMB = 500, m_path = ''models/asr/whisper-small-thai.pte'',
        downloaded = False, loaded = False \<rparr>,
      \<lparr> m_id = ''whisper-tiny-thai'', m_name = ''Whisper Tiny Thai'', m_type = ASR,
        sizeMB = 39, ramRequiredMB = 150, m_path = ''models/asr/whisper-tiny-thai.pte'',
        downloaded = False, loaded = False \<rparr>,
      \<lparr> m_id = ''vits-thai-female'', m_name = ''VITS Thai Female'', m_type = TTS,
        sizeMB = 25, ramRequiredMB = 100, m_path = ''models/tts/vits-thai-female.pte'',
        downloaded = False, loaded = False \<rparr>,
      \<lparr> m_id = ''vits-thai-male-monk'', m_name = ''VITS Thai Male (Monk voice)'', m_type = TTS,
        sizeMB = 25, ramRequiredMB = 100, m_path = ''models/tts/vits-thai-male-monk.pte'',
        downloaded = False, loaded = False \<rparr> ]"

text \<open>
  The values of \<open>loadedModels: Map<string, any>\<close> are opaque handles. A JavaScript \<open>Map\<close>
  keeps its keys in insertion order and \<open>set\<close> on a present key keeps the key's place, so
  both maps are association lists with distinct keys.
\<close>

datatype handle = Handle nat

record ModelManager =
  models :: "(string \<times> ModelInfo) list"
  loadedModels :: "(string \<times> handle) list"
  mm_initialized :: bool

text \<open>\<open>constructor()\<close>: every entry of the configuration is copied into the registry.\<close>

definition map_set :: "'k \<Rightarrow> 'v \<Rightarrow> ('k \<times> 'v) list \<Rightarrow> ('k \<times> 'v) list" where
  "map_set k v kvs =
     (if k \<in> fst ` set kvs then map (\<lambda>(k', v'). if k' = k then (k', v) else (k', v')) kvs
      else kvs @ [(k, v)])"

definition map_delete :: "'k \<Rightarrow> ('k \<times> 'v) list \<Rightarrow> ('k \<times> 'v) list" where
  "map_delete k kvs = filter (\<lambda>(k', v'). k' \<noteq> k) kvs"

definition mm_constructor :: ModelManager where
  "mm_constructor =
     \<lparr> models = fold (\<lambda>model ms. map_set (m_id model) model ms) MODELS_CONFIG [],
       loadedModels = [],
       mm_initialized = False \<rparr>"

text \<open>
  \<open>this.models.get(id)\<close> returns the object stored in the map, and the methods assign to
  its fields before storing it back under the same key: the entry of that key is changed
  in place and no other entry is touched.
\<close>

definition modify_model :: "string \<Rightarrow> (ModelInfo \<Rightarrow> ModelInfo) \<Rightarrow> ModelManager \<Rightarrow> ModelManager" where
  "modify_model modelId f s =
     s\<lparr> models := map (\<lambda>(k, m). if k = modelId then (k, f m) else (k, m)) (models s) \<rparr>"

text \<open>
  \<open>initialize()\<close>: \<open>file_exists\<close> is the answer of \<open>FileSystem.exists\<close> for the full path of
  a model's relative path (the platform's directory is a fixed prefix).
\<close>

definition mm_initialize :: "(string \<Rightarrow> bool) \<Rightarrow> ModelManager \<Rightarrow> ModelManager" where
  "mm_initialize file_exists s =
     (if mm_initialized s then s
      else s\<lparr> models := map (\<lambda>(k, m). (k, m\<lparr>downloaded := file_exists (m_path m)\<rparr>)) (models s),
              mm_initialized := True \<rparr>)"

text \<open>\<open>downloadModel\<close>: \<open>statusCode\<close> is the status the download finished with.\<close>

definition downloadModel :: "string \<Rightarrow> int \<Rightarrow> ModelManager \<Rightarrow> (error + unit) \<times> ModelManager" where
  "downloadModel modelId statusCode s =
     (case map_of (models s) modelId of
        None \<Rightarrow> (Inl (Model_not_found modelId), s)
      | Some model \<Rightarrow>
          if statusCode = 200
          then (Inr (), modify_model modelId (\<lambda>m. m\<lparr>downloaded := True\<rparr>) s)
          else (Inl (Download_failed statusCode), s))"

definition unloadModel :: "string \<Rightarrow> ModelManager \<Rightarrow> ModelManager" where
  "unloadModel modelId s =
     (case map_of (models s) modelId of
        None \<Rightarrow> s
      | Some model \<Rightarrow>
          modify_model modelId (\<lambda>m. m\<lparr>loaded := False\<rparr>)
            (s\<lparr> loadedModels := map_delete modelId (loadedModels s) \<rparr>))"

definition deleteModel :: "string \<Rightarrow> ModelManager \<Rightarrow> (error + unit) \<times> ModelManager" where
  "deleteModel modelId s =
     (case map_of (models s) modelId of
        None \<Rightarrow> (Inl (Model_not_found modelId), s)
      | Some model \<Rightarrow>
          let s1 = (if loaded model then unloadModel modelId s else s)
          in (Inr (), modify_model modelId (\<lambda>m. m\<lparr>downloaded := False\<rparr>) s1))"

text \<open>\<open>getLoadedModelsRAM\<close>: the loop over \<open>this.models.values()\<close>.\<close>

definition getLoadedModelsRAM :: "ModelManager \<Rightarrow> int" where
  "getLoadedModelsRAM s =
     fold (\<lambda>model total. if loaded model then total + ramRequiredMB model else total)
       (map snd (models s)) 0"

text \<open>
  \<open>evictModels\<close>: the loop over the entries of \<open>this.models\<close>. \<open>unloadModel(id)\<close> changes
  only the entry the iterator is at, so the entries still to come are those of the map at
  the start of the loop.
\<close>

fun evict_loop :: "(string \<times> ModelInfo) list \<Rightarrow> int \<Rightarrow> int \<Rightarrow> ModelManager \<Rightarrow> ModelManager" where
  "evict_loop [] requiredMB freed s = s"
| "evict_loop ((k, model) # rest) requiredMB freed s =
     (if freed \<ge> requiredMB then s
      else if loaded model \<and> m_type model \<noteq> LLM
        then evict_loop rest requiredMB (freed + ramRequiredMB model) (unloadModel k s)
        else evict_loop rest requiredMB freed s)"

definition evictModels :: "int \<Rightarrow> ModelManager \<Rightarrow> ModelManager" where
  "evictModels requiredMB s = evict_loop (models s) requiredMB 0 s"

definition maxRAM :: int where
  "maxRAM = 4096"

definition ensureMemoryAvailable :: "int \<Rightarrow> ModelManager \<Rightarrow> ModelManager" where
  "ensureMemoryAvailable requiredMB s =
     (let currentlyUsed = getLoadedModelsRAM s;
          available = maxRAM - currentlyUsed
      in if available < requiredMB then evictModels (requiredMB - available) s else s)"

text \<open>
  \<open>loadModel\<close> returns the handle stored in \<open>loadedModels\<close> when the model is loaded and has
  one, and \<open>null\<close> (\<open>None\<close>) after marking the model loaded otherwise.
\<close>

definition loadModel :: "string \<Rightarrow> ModelManager \<Rightarrow> (error + handle option) \<times> ModelManager" where
  "loadModel modelId s =
     (case map_of (models s) modelId of
        None \<Rightarrow> (Inl (Model_not_found modelId), s)
      | Some model \<Rightarrow>
          if \<not> downloaded model then (Inl (Model_not_downloaded modelId), s)
          else if loaded model \<and> modelId \<in> fst ` set (loadedModels s)
            then (Inr (map_of (loadedModels s) modelId), s)
          else
            let s1 = ensureMemoryAvailable (ramRequiredMB model) s
            in (Inr None, modify_model modelId (\<lambda>m. m\<lparr>loaded := True\<rparr>) s1))"

text \<open>The calls a client can make on the manager, and a run of them from a state.\<close>

datatype mm_call =
    Initialize "string \<Rightarrow> bool"
  | DownloadModel string int
  | DeleteModel string
  | LoadModel string
  | UnloadModel string

fun mm_step :: "mm_call \<Rightarrow> ModelManager \<Rightarrow> ModelManager" where
  "mm_step (Initialize file_exists) s = mm_initialize file_exists s"
| "mm_step (DownloadModel modelId statusCode) s = snd (downloadModel modelId statusCode s)"
| "mm_step (DeleteModel modelId) s = snd (deleteModel modelId s)"
| "mm_step (LoadModel modelId) s = snd (loadModel modelId s)"
| "mm_step (UnloadModel modelId) s = unloadModel modelId s"

definition mm_run :: "mm_call list \<Rightarrow> ModelManager \<Rightarrow> ModelManager" where
  "mm_run calls s = fold mm_step calls s"

text \<open>The part of the registry that no call changes: the keys, in order, with their RAM cost; and
  no handle is ever stored.\<close>

definition registry_inv :: "ModelManager \<Rightarrow> bool" where
  "registry_inv s \<longleftrightarrow>
     map (\<lambda>(k, m). (k, ramRequiredMB m)) (models s) =
       map (\<lambda>m. (m_id m, ramRequiredMB m)) MODELS_CONFIG \<and> loadedModels s = []"

text \<open>A registry under memory pressure, for exercising eviction.\<close>

definition crowded :: ModelManager where
  "crowded =
     \<lparr> models =
         [(''asr-big'', \<lparr> m_id = ''asr-big'', m_name = ''big'', m_type = ASR, sizeMB = 1, ramRequiredMB = 3000,
              m_path = ''a'', downloaded = True, loaded = True \<rparr>),
          (''tts-big'', \<lparr> m_id = ''tts-big'', m_name = ''big'', m_type = TTS, sizeMB = 1, ramRequiredMB = 2000,
              m_path = ''b'', downloaded = True, loaded = False \<rparr>)],
       loadedModels = [], mm_initialized = True \<rparr>"

section \<open>Strings and numbers of the JavaScript sources\<close>

text \<open>
  A JavaScript string is a sequence of UTF-16 code units, and \<open>length\<close> and the regular
  expressions of the sources count code units. \<open>utf16\<close> writes an ASCII literal.

  A JavaScript number is modelled by a real number: sums, products, quotients and square
  roots are exact, without rounding, overflow or underflow. The one value outside the reals
  that the sources can reach from real inputs is \<open>NaN\<close>, the result of \<open>0 / 0\<close>; where it can
  arise the model returns \<open>None\<close>.
\<close>

type_synonym jsstring = "16 word list"

definition utf16 :: "string \<Rightarrow> jsstring" where
  "utf16 s = map (\<lambda>c. of_nat (of_char c)) s"

text \<open>The decimal digits of an index, as a template literal writes a whole number.\<close>

fun number_toString :: "nat \<Rightarrow> jsstring" where
  "number_toString n =
     (if n < 10 then [of_nat (48 + n)]
      else number_toString (n div 10) @ [of_nat (48 + n mod 10)])"

text \<open>
  \<open>xs.slice(0, end)\<close>: \<open>end\<close> is truncated to a whole number; a negative \<open>end\<close> counts from
  the end of the array.
\<close>

definition slice0 :: "'a list \<Rightarrow> real \<Rightarrow> 'a list" where
  "slice0 xs end_arg =
     (let k = (if end_arg < 0 then \<lceil>end_arg\<rceil> else \<lfloor>end_arg\<rfloor>)
      in if k < 0 then take (nat (int (length xs) + k)) xs else take (nat k) xs)"

text \<open>\<open>x || d\<close> for an optional number: \<open>undefined\<close> and \<open>0\<close> are falsy.\<close>

definition or_default :: "real option \<Rightarrow> real \<Rightarrow> real" where
  "or_default x d = (case x of None \<Rightarrow> d | Some v \<Rightarrow> if v = 0 then d else v)"

section \<open>Database Service (services/core/DatabaseService)\<close>

text \<open>
  The tables the vector search and the user documents use, each a list of rows in the
  order the store returns them. An embedding blob holds 32-bit floats; the model keeps the
  numbers they stand for, so \<open>vectorToBlob\<close> and \<open>blobToVector\<close> are the identity
  (\<open>blobToVector\<close> does not use its \<open>dimensions\<close> argument in the source either).
\<close>

record chunks_row =
  c_id :: jsstring
  c_source_id :: jsstring
  c_content :: jsstring
  c_chunk_index :: int
  c_total_chunks :: int
  c_title_thai :: jsstring
  c_title_pali :: jsstring
  c_pitaka :: jsstring
  c_nikaya :: jsstring

record embeddings_row =
  e_chunk_id :: jsstring
  e_embedding :: "real list"
  e_dimensions :: int

record user_chunks_row =
  uc_id :: jsstring
  uc_document_id :: jsstring
  uc_content :: jsstring
  uc_chunk_index :: nat
  uc_total_chunks :: int
  uc_created_at :: int

record user_embeddings_row =
  ue_chunk_id :: jsstring
  ue_embedding :: "real list"
  ue_dimensions :: int
  ue_model :: jsstring
  ue_created_at :: int

record Database =
  chunks :: "chunks_row list"
  embeddings :: "embeddings_row list"
  user_chunks :: "user_chunks_row list"
  user_embeddings :: "user_embeddings_row list"

definition blobToVector :: "real list \<Rightarrow> int \<Rightarrow> real list" where
  "blobToVector blob dimensions = blob"

definition vectorToBlob :: "real list \<Rightarrow> real list" where
  "vectorToBlob vector = vector"

text \<open>The interfaces \<open>SuttaMeta\<close> (the fields the search fills) and \<open>VectorSearchResult\<close>.\<close>

record SuttaMeta =
  meta_id :: jsstring
  sutta_id :: jsstring
  title_thai :: jsstring
  title_pali :: jsstring
  pitaka :: jsstring
  nikaya :: jsstring

record VectorSearchResult =
  r_id :: jsstring
  title :: jsstring
  content :: jsstring
  score :: real
  distance :: real
  metadata :: SuttaMeta

text \<open>
  \<open>cosineDistance\<close>: the loop over the indices of \<open>a\<close> with its three accumulators. The
  quotient is \<open>0 / 0\<close> exactly when one of the vectors has norm zero, and the result is
  \<open>NaN\<close> then.
\<close>

definition cosine_loop :: "real list \<Rightarrow> real list \<Rightarrow> real \<times> real \<times> real" where
  "cosine_loop a b =
     fold (\<lambda>i (dotProduct, normA, normB).
             (dotProduct + a ! i * b ! i, normA + a ! i * a ! i, normB + b ! i * b ! i))
       [0..<length a] (0, 0, 0)"

definition cosineDistance :: "real list \<Rightarrow> real list \<Rightarrow> real option" where
  "cosineDistance a b =
     (if length a \<noteq> length b then Some 1
      else case cosine_loop a b of (dotProduct, normA, normB) \<Rightarrow>
        if sqrt normA * sqrt normB = 0 then None
        else Some (1 - dotProduct / (sqrt normA * sqrt normB)))"

text \<open>
  The query of \<open>vectorSearch\<close>: \<open>chunks c JOIN embeddings e ON c.id = e.chunk_id\<close>. The
  tables \<open>user_chunks\<close> and \<open>user_embeddings\<close> are not read.
\<close>

definition select_chunks_join_embeddings :: "Database \<Rightarrow> (chunks_row \<times> embeddings_row) list" where
  "select_chunks_join_embeddings d =
     concat (map (\<lambda>c. map (\<lambda>e. (c, e)) (filter (\<lambda>e. e_chunk_id e = c_id c) (embeddings d)))
                 (chunks d))"

text \<open>The callback of \<open>map\<close>, for a row and the distance of its embedding.\<close>

definition to_result :: "chunks_row \<times> embeddings_row \<Rightarrow> real \<Rightarrow> VectorSearchResult" where
  "to_result row dst =
     \<lparr> r_id = c_id (fst row),
       title = c_title_thai (fst row),
       content = c_content (fst row),
       score = 1 - dst,
       distance = dst,
       metadata =
         \<lparr> meta_id = c_source_id (fst row),
           sutta_id = c_source_id (fst row),
           title_thai = c_title_thai (fst row),
           title_pali = c_title_pali (fst row),
           pitaka = c_pitaka (fst row),
           nikaya = c_nikaya (fst row) \<rparr> \<rparr>"

text \<open>
  \<open>.map(...).filter((r) => r.score >= threshold)\<close> on the rows: a row whose score is \<open>NaN\<close>
  fails the comparison and is dropped, as a row whose score is below the threshold is.
\<close>

definition score_row ::
  "real list \<Rightarrow> real \<Rightarrow> chunks_row \<times> embeddings_row \<Rightarrow> VectorSearchResult option" where
  "score_row queryEmbedding threshold row =
     (case cosineDistance queryEmbedding (blobToVector (e_embedding (snd row)) (e_dimensions (snd row))) of
        None \<Rightarrow> None
      | Some dst \<Rightarrow>
          if score (to_result row dst) \<ge> threshold then Some (to_result row dst) else None)"

definition scored_rows :: "Database \<Rightarrow> real list \<Rightarrow> real \<Rightarrow> VectorSearchResult list" where
  "scored_rows d queryEmbedding threshold =
     List.map_filter (score_row queryEmbedding threshold) (select_chunks_join_embeddings d)"

text \<open>
  \<open>.sort((a, b) => b.score - a.score)\<close>: \<open>Array.prototype.sort\<close> is stable, so the result is
  the one list that is in descending order of score and keeps rows of equal score in
  their order; the stable insertion sort on the negated score computes it.
\<close>

definition sort_by_score :: "VectorSearchResult list \<Rightarrow> VectorSearchResult list" where
  "sort_by_score rs = sort_key (\<lambda>r. - score r) rs"

text \<open>
  \<open>vectorSearch(queryEmbedding, limit = 10, threshold = 0.7)\<close>; the first argument of the
  model is the field \<open>db\<close> of the service, \<open>None\<close> before the database is opened.
\<close>

definition vectorSearch ::
  "Database option \<Rightarrow> real list \<Rightarrow> real option \<Rightarrow> real option \<Rightarrow> error + VectorSearchResult list" where
  "vectorSearch db queryEmbedding limit_arg threshold_arg =
     (case db of
        None \<Rightarrow> Inl Database_not_initialized
      | Some d \<Rightarrow>
          let limit = (case limit_arg of None \<Rightarrow> 10 | Some l \<Rightarrow> l);
              threshold = (case threshold_arg of None \<Rightarrow> 7 / 10 | Some t \<Rightarrow> t)
          in Inr (slice0 (sort_by_score (scored_rows d queryEmbedding threshold)) limit))"

text \<open>
  \<open>addUserChunk\<close>: one row into \<open>user_chunks\<close> and one into \<open>user_embeddings\<close>; \<open>now\<close> is
  \<open>Date.now()\<close>.
\<close>

definition addUserChunk ::
  "Database option \<Rightarrow> int \<Rightarrow> jsstring \<Rightarrow> jsstring \<Rightarrow> nat \<Rightarrow> int \<Rightarrow> real list
     \<Rightarrow> (error + jsstring) \<times> Database option" where
  "addUserChunk db now documentId content' chunkIndex totalChunks embedding =
     (case db of
        None \<Rightarrow> (Inl Database_not_initialized, db)
      | Some d \<Rightarrow>
          let id' = utf16 ''user-chunk-'' @ documentId @ utf16 ''-'' @ number_toString chunkIndex;
              embeddingBlob = vectorToBlob embedding
          in (Inr id',
              Some (d\<lparr> user_chunks := user_chunks d @
                         [\<lparr> uc_id = id', uc_document_id = documentId, uc_content = content',
                            uc_chunk_index = chunkIndex, uc_total_chunks = totalChunks,
                            uc_created_at = now \<rparr>],
                       user_embeddings := user_embeddings d @
                         [\<lparr> ue_chunk_id = id', ue_embedding = embeddingBlob,
                            ue_dimensions = int (length embedding),
                            ue_model = utf16 ''sentence-transformers'', ue_created_at = now \<rparr>] \<rparr>)))"

text \<open>
  The cosine similarity in the words of the specification, \<open>dot(a,b) / (||a|| * ||b||)\<close>,
  for comparison with what \<open>cosineDistance\<close> computes.
\<close>

definition dot :: "real list \<Rightarrow> real list \<Rightarrow> real" where
  "dot a b = (\<Sum>i<length a. a ! i * b ! i)"


section \<open>RAG Engine (services/ai/RAGEngine)\<close>

definition DEFAULT_TOP_K :: real where
  "DEFAULT_TOP_K = 5"

definition DEFAULT_THRESHOLD :: real where
  "DEFAULT_THRESHOLD = 6 / 10"

definition MAX_CONTEXT_TOKENS :: int where
  "MAX_CONTEXT_TOKENS = 2048"

definition RAG_SYSTEM_PROMPT :: jsstring where
  "RAG_SYSTEM_PROMPT = [
      0x0E04, 0x0E38, 0x0E13, 0x0E40, 0x0E1B, 0x0E47, 0x0E19, 0x0E1C, 0x0E39, 0x0E49, 0x0E0A, 0x0E48,
      0x0E27, 0x0E22, 0x0E17, 0x0E35, 0x0E48, 0x0E40, 0x0E0A, 0x0E35, 0x0E48, 0x0E22, 0x0E27, 0x0E0A,
      0x0E32, 0x0E0D, 0x0E14, 0x0E49, 0x0E32, 0x0E19, 0x0E1E, 0x0E23, 0x0E30, 0x0E1E, 0x0E38, 0x0E17,
      0x0E18, 0x0E28, 0x0E32, 0x0E2A, 0x0E19, 0x0E32, 0x0020, 0x000A, 0x0E04, 0x0E38, 0x0E13, 0x0E21,
      0x0E35, 0x0E2B, 0x0E19, 0x0E49, 0x0E32, 0x0E17, 0x0E35, 0x0E48, 0x0E15, 0x0E2D, 0x0E1A, 0x0E04,
      0x0E33, 0x0E16, 0x0E32, 0x0E21, 0x0E42, 0x0E14, 0x0E22, 0x0E2D, 0x0E49, 0x0E32, 0x0E07, 0x0E2D,
      0x0E34, 0x0E07, 0x0E08, 0x0E32, 0x0E01, 0x0E1E, 0x0E23, 0x0E30, 0x0E44, 0x0E15, 0x0E23, 0x0E1B,
      0x0E34, 0x0E0E, 0x0E01, 0x0E41, 0x0E25, 0x0E30, 0x0E04, 0x0E33, 0x0E2A, 0x0E2D, 0x0E19, 0x0E02,
      0x0E2D, 0x0E07, 0x0E1E, 0x0E23, 0x0E30, 0x0E1E, 0x0E38, 0x0E17, 0x0E18, 0x0E40, 0x0E08, 0x0E49,
      0x0E32, 0x000A, 0x000A, 0x0E01, 0x0E0E, 0x0E2A, 0x0E33, 0x0E04, 0x0E31, 0x0E0D, 0x003A, 0x000A,
      0x0031, 0x002E, 0x0020, 0x0E15, 0x0E2D, 0x0E1A, 0x0E04, 0x0E33, 0x0E16, 0x0E32, 0x0E21, 0x0E42,
      0x0E14, 0x0E22, 0x0E43, 0x0E0A, 0x0E49, 0x0E02, 0x0E49, 0x0E2D, 0x0E21, 0x0E39, 0x0E25, 0x0E08,
      0x0E32, 0x0E01, 0x0E1E, 0x0E23, 0x0E30, 0x0E2A, 0x0E39, 0x0E15, 0x0E23, 0x0E17, 0x0E35, 0x0E48,
      0x0E43, 0x0E2B, 0x0E49, 0x0E21, 0x0E32, 0x0E40, 0x0E17, 0x0E48, 0x0E32, 0x0E19, 0x0E31, 0x0E49,
      0x0E19, 0x000A, 0x0032, 0x002E, 0x0020, 0x0E2D, 0x0E49, 0x0E32, 0x0E07, 0x0E2D, 0x0E34, 0x0E07,
      0x0E0A, 0x0E37, 0x0E48, 0x0E2D, 0x0E1E, 0x0E23, 0x0E30, 0x0E2A, 0x0E39, 0x0E15, 0x0E23, 0x0E40,
      0x0E21, 0x0E37, 0x0E48, 0x0E2D, 0x0E02, 0x0E49, 0x0E2D, 0x0E04, 0x0E27, 0x0E32, 0x0E21, 0x0E2A,
      0x0E33, 0x0E04, 0x0E31, 0x0E0D, 0x000A, 0x0033, 0x002E, 0x0020, 0x0E2B, 0x0E32, 0x0E01, 0x0E02,
      0x0E49, 0x0E2D, 0x0E21, 0x0E39, 0x0E25, 0x0E44, 0x0E21, 0x0E48, 0x0E40, 0x0E1E, 0x0E35, 0x0E22,
      0x0E07, 0x0E1E, 0x0E2D, 0x0020, 0x0E43, 0x0E2B, 0x0E49, 0x0E1A, 0x0E2D, 0x0E01, 0x0E27, 0x0E48,
      0x0E32, 0x0E44, 0x0E21, 0x0E48, 0x0E1E, 0x0E1A, 0x0E02, 0x0E49, 0x0E2D, 0x0E21, 0x0E39, 0x0E25,
      0x0E43, 0x0E19, 0x0E1E, 0x0E23, 0x0E30, 0x0E44, 0x0E15, 0x0E23, 0x0E1B, 0x0E34, 0x0E0E, 0x0E01,
      0x000A, 0x0034, 0x002E, 0x0020, 0x0E43, 0x0E0A, 0x0E49, 0x0E20, 0x0E32, 0x0E29, 0x0E32, 0x0E17,
      0x0E35, 0x0E48, 0x0E2A, 0x0E38, 0x0E20, 0x0E32, 0x0E1E, 0x0E41, 0x0E25, 0x0E30, 0x0E40, 0x0E2B,
      0x0E21, 0x0E32, 0x0E30, 0x0E2A, 0x0E21, 0x0E01, 0x0E31, 0x0E1A, 0x0E18, 0x0E23, 0x0E23, 0x0E21,
      0x0E30, 0x000A, 0x0035, 0x002E, 0x0020, 0x0E2B, 0x0E25, 0x0E35, 0x0E01, 0x0E40, 0x0E25, 0x0E35,
      0x0E48, 0x0E22, 0x0E07, 0x0E01, 0x0E32, 0x0E23, 0x0E15, 0x0E35, 0x0E04, 0x0E27, 0x0E32, 0x0E21,
      0x0E2A, 0x0E48, 0x0E27, 0x0E19, 0x0E15, 0x0E31, 0x0E27, 0x0020, 0x0E43, 0x0E2B, 0x0E49, 0x0E2D,
      0x0E49, 0x0E32, 0x0E07, 0x0E2D, 0x0E34, 0x0E07, 0x0E1E, 0x0E23, 0x0E30, 0x0E18, 0x0E23, 0x0E23,
      0x0E21, 0x0E27, 0x0E08, 0x0E19, 0x0E30 ]"

record QueryFilters =
  f_pitaka :: "jsstring list option"
  f_nikaya :: "jsstring list option"
  userDocumentsOnly :: "bool option"

record RAGQuery =
  q_question :: jsstring
  q_topK :: "real option"
  q_threshold :: "real option"
  q_filters :: "QueryFilters option"

record Citation =
  suttaId :: jsstring
  cit_title :: jsstring
  cit_content :: jsstring
  relevance :: real

record RAGResponse =
  answer :: jsstring
  sources :: "Citation list"
  confidence :: real
  processingTime :: int

text \<open>The field \<open>embeddingModel\<close> of the class is never assigned or read.\<close>

record RAGEngine =
  initialized :: bool

text \<open>
  \<open>retrieveChunks\<close>: the search with twice \<open>topK\<close> as limit, the two filters, the first
  \<open>topK\<close> results. \<open>filters.userDocumentsOnly\<close> is not read.
\<close>

definition retrieveChunks ::
  "Database option \<Rightarrow> real list \<Rightarrow> real \<Rightarrow> real \<Rightarrow> QueryFilters option
     \<Rightarrow> error + VectorSearchResult list" where
  "retrieveChunks db queryEmbedding topK thr filters_arg =
     (case vectorSearch db queryEmbedding (Some (topK * 2)) (Some thr) of
        Inl e \<Rightarrow> Inl e
      | Inr results \<Rightarrow>
          let results2 =
            (case filters_arg of
               None \<Rightarrow> results
             | Some f \<Rightarrow>
                 let results1 =
                       (case f_pitaka f of
                          None \<Rightarrow> results
                        | Some ps \<Rightarrow>
                            if length ps > 0
                            then filter (\<lambda>r. pitaka (metadata r) \<in> set ps) results
                            else results)
                 in (case f_nikaya f of
                       None \<Rightarrow> results1
                     | Some ns \<Rightarrow>
                         if length ns > 0
                         then filter (\<lambda>r. nikaya (metadata r) \<in> set ns) results1
                         else results1))
          in Inr (slice0 results2 topK))"

text \<open>
  \<open>estimateTokens\<close>: the code units in the Thai block \<open>U+0E00..U+0E7F\<close> count a half, the
  others a quarter, rounded up.
\<close>

definition is_thai :: "16 word \<Rightarrow> bool" where
  "is_thai c \<longleftrightarrow> 0x0E00 \<le> c \<and> c \<le> 0x0E7F"

definition estimateTokens :: "jsstring \<Rightarrow> int" where
  "estimateTokens text_arg =
     (let thaiChars = length (filter is_thai text_arg);
          otherChars = length text_arg - thaiChars
      in \<lceil>real thaiChars / 2 + real otherChars / 4\<rceil>)"

text \<open>The template \<open>[${result.metadata.title_thai}]\n${result.content}\n\<close>.\<close>

definition format_chunk :: "VectorSearchResult \<Rightarrow> jsstring" where
  "format_chunk result =
     [0x5B] @ title_thai (metadata result) @ [0x5D, 0x0A] @ content result @ [0x0A]"

text \<open>\<open>Array.prototype.join\<close>.\<close>

fun js_join :: "jsstring \<Rightarrow> jsstring list \<Rightarrow> jsstring" where
  "js_join sep [] = []"
| "js_join sep [x] = x"
| "js_join sep (x # y # ys) = x @ sep @ js_join sep (y # ys)"

text \<open>
  \<open>buildContext\<close>: the loop stops at the first result whose chunk would take the running
  estimate over \<open>MAX_CONTEXT_TOKENS\<close>; the chunks pushed before it are joined with
  \<open>\n---\n\<close>.
\<close>

fun buildContext_loop :: "VectorSearchResult list \<Rightarrow> int \<Rightarrow> jsstring list \<Rightarrow> jsstring list" where
  "buildContext_loop [] currentTokens contexts = contexts"
| "buildContext_loop (result # rest) currentTokens contexts =
     (let chunk = format_chunk result;
          tokens = estimateTokens chunk
      in if currentTokens + tokens > MAX_CONTEXT_TOKENS then contexts
         else buildContext_loop rest (currentTokens + tokens) (contexts @ [chunk]))"

definition buildContext :: "VectorSearchResult list \<Rightarrow> jsstring" where
  "buildContext results = js_join [0x0A, 0x2D, 0x2D, 0x2D, 0x0A] (buildContext_loop results 0 [])"

text \<open>
  The results whose chunk the loop of \<open>buildContext\<close> pushes: the same loop, keeping the
  result in place of its chunk.
\<close>

fun included_loop :: "VectorSearchResult list \<Rightarrow> int \<Rightarrow> VectorSearchResult list" where
  "included_loop [] currentTokens = []"
| "included_loop (result # rest) currentTokens =
     (let chunk = format_chunk result;
          tokens = estimateTokens chunk
      in if currentTokens + tokens > MAX_CONTEXT_TOKENS then []
         else result # included_loop rest (currentTokens + tokens))"

definition included_results :: "VectorSearchResult list \<Rightarrow> VectorSearchResult list" where
  "included_results results = included_loop results 0"

text \<open>
  \<open>generateAnswer\<close>: \<open>generate\<close> stands for \<open>execuTorchService.generate\<close> with
  \<open>maxTokens: 512\<close> and \<open>temperature: 0.7\<close>, giving the text of the response or the error
  it throws.
\<close>

definition build_prompt :: "jsstring \<Rightarrow> jsstring \<Rightarrow> jsstring" where
  "build_prompt question context =
     RAG_SYSTEM_PROMPT @
     [
      0x000A, 0x000A, 0x0E02, 0x0E49, 0x0E2D, 0x0E21, 0x0E39, 0x0E25, 0x0E08, 0x0E32, 0x0E01, 0x0E1E,
      0x0E23, 0x0E30, 0x0E44, 0x0E15, 0x0E23, 0x0E1B, 0x0E34, 0x0E0E, 0x0E01, 0x003A, 0x000A ] @
     context @
     [
      0x000A, 0x000A, 0x0E04, 0x0E33, 0x0E16, 0x0E32, 0x0E21, 0x003A, 0x0020 ] @
     question @
     [
      0x000A, 0x000A, 0x0E04, 0x0E33, 0x0E15, 0x0E2D, 0x0E1A, 0x003A ]"

definition generateAnswer ::
  "(jsstring \<Rightarrow> error + jsstring) \<Rightarrow> jsstring \<Rightarrow> jsstring \<Rightarrow> error + jsstring" where
  "generateAnswer generate question context = generate (build_prompt question context)"

definition to_citation :: "VectorSearchResult \<Rightarrow> Citation" where
  "to_citation result =
     \<lparr> suttaId = meta_id (metadata result),
       cit_title = title_thai (metadata result),
       cit_content = take 200 (content result) @ utf16 ''...'',
       relevance = score result \<rparr>"

definition buildCitations :: "VectorSearchResult list \<Rightarrow> Citation list" where
  "buildCitations results = map to_citation results"

definition calculateConfidence :: "VectorSearchResult list \<Rightarrow> real" where
  "calculateConfidence results =
     (if length results = 0 then 0
      else
        let avgScore = fold (\<lambda>r sum. sum + score r) results 0 / real (length results);
            countFactor = min (real (length results) / DEFAULT_TOP_K) 1
        in avgScore * countFactor)"

text \<open>
  \<open>query\<close> is an \<open>async\<close> function. Up to the call of the generation model it reads the
  engine and the database and writes nothing; it then waits for the model, and builds the
  response when the text arrives. \<open>query_start\<close> is the first part, with what the query
  holds while it waits; \<open>query_finish\<close> is the second. \<open>getQueryEmbedding\<close> stands for the
  method of that name (a mock that draws random numbers), \<open>startTime\<close> and \<open>endTime\<close> for
  the two readings of \<open>Date.now()\<close>.
\<close>

record pending_query =
  pq_query :: RAGQuery
  pq_startTime :: int
  pq_searchResults :: "VectorSearchResult list"
  pq_context :: jsstring

definition query_start ::
  "RAGEngine \<Rightarrow> Database option \<Rightarrow> (jsstring \<Rightarrow> real list) \<Rightarrow> int \<Rightarrow> RAGQuery
     \<Rightarrow> error + pending_query" where
  "query_start engine db getQueryEmbedding startTime q =
     (if \<not> initialized engine then Inl RAG_Engine_not_initialized
      else
        let queryEmbedding = getQueryEmbedding (q_question q)
        in case retrieveChunks db queryEmbedding
                  (or_default (q_topK q) DEFAULT_TOP_K)
                  (or_default (q_threshold q) DEFAULT_THRESHOLD)
                  (q_filters q) of
             Inl e \<Rightarrow> Inl e
           | Inr searchResults \<Rightarrow>
               Inr \<lparr> pq_query = q, pq_startTime = startTime,
                     pq_searchResults = searchResults,
                     pq_context = buildContext searchResults \<rparr>)"

definition query_finish :: "pending_query \<Rightarrow> error + jsstring \<Rightarrow> int \<Rightarrow> error + RAGResponse" where
  "query_finish p generated endTime =
     (case generated of
        Inl e \<Rightarrow> Inl e
      | Inr answer_text \<Rightarrow>
          Inr \<lparr> answer = answer_text,
                sources = buildCitations (pq_searchResults p),
                confidence = calculateConfidence (pq_searchResults p),
                processingTime = endTime - pq_startTime p \<rparr>)"

definition query ::
  "RAGEngine \<Rightarrow> Database option \<Rightarrow> (jsstring \<Rightarrow> real list) \<Rightarrow> (jsstring \<Rightarrow> error + jsstring)
     \<Rightarrow> int \<Rightarrow> int \<Rightarrow> RAGQuery \<Rightarrow> error + RAGResponse" where
  "query engine db getQueryEmbedding generate startTime endTime q =
     (case query_start engine db getQueryEmbedding startTime q of
        Inl e \<Rightarrow> Inl e
      | Inr p \<Rightarrow>
          query_finish p (generateAnswer generate (q_question q) (pq_context p)) endTime)"

text \<open>
  The queries in flight: a call of \<open>query\<close> that gets as far as the generation model waits
  there, and any number of them can wait; \<open>settle_query\<close> delivers the model's text to
  the \<open>i\<close>-th of them, which then returns its response.
\<close>

record rag_runtime =
  rt_engine :: RAGEngine
  rt_db :: "Database option"
  rt_in_flight :: "pending_query list"

definition call_query ::
  "(jsstring \<Rightarrow> real list) \<Rightarrow> int \<Rightarrow> RAGQuery \<Rightarrow> rag_runtime \<Rightarrow> error option \<times> rag_runtime" where
  "call_query getQueryEmbedding startTime q rt =
     (case query_start (rt_engine rt) (rt_db rt) getQueryEmbedding startTime q of
        Inl e \<Rightarrow> (Some e, rt)
      | Inr p \<Rightarrow> (None, rt\<lparr> rt_in_flight := rt_in_flight rt @ [p] \<rparr>))"

definition settle_query ::
  "nat \<Rightarrow> (jsstring \<Rightarrow> error + jsstring) \<Rightarrow> int \<Rightarrow> rag_runtime
     \<Rightarrow> (error + RAGResponse) option \<times> rag_runtime" where
  "settle_query i generate endTime rt =
     (if i < length (rt_in_flight rt)
      then
        let p = rt_in_flight rt ! i
        in (Some (query_finish p
                    (generateAnswer generate (q_question (pq_query p)) (pq_context p)) endTime),
            rt\<lparr> rt_in_flight := take i (rt_in_flight rt) @ drop (Suc i) (rt_in_flight rt) \<rparr>)
      else (None, rt))"

text \<open>
  The confidence in the words of the specification: the average score of the results
  included in the context, times \<open>min(count(included) / top_k, 1)\<close>, and 0 when none was
  included.
\<close>

definition spec_confidence :: "real list \<Rightarrow> real \<Rightarrow> real" where
  "spec_confidence included_scores top_k =
     (if included_scores = [] then 0
      else (sum_list included_scores / real (length included_scores))
             * min (real (length included_scores) / top_k) 1)"

section \<open>Voice Pipeline (services/voice)\<close>

record VoicePipelineConfig =
  asrModel :: string
  ttsModel :: string
  ttsVoice :: string
  speed :: real
  pitch :: real
  autoSpeak :: bool

record VoicePipeline =
  isProcessing :: bool
  config :: "VoicePipelineConfig option"

text \<open>
  How a call of \<open>startVoiceInteraction\<close> begins: it returns at once (after a warning on the
  console) when an interaction is running, throws when there is no configuration, and
  otherwise sets \<open>isProcessing\<close> and goes on to record, transcribe and call \<open>query\<close>. The
  \<open>finally\<close> block clears the flag.
\<close>

datatype voice_entry = Already_processing | Throws error | Started

definition startVoiceInteraction_enter :: "VoicePipeline \<Rightarrow> voice_entry \<times> VoicePipeline" where
  "startVoiceInteraction_enter vp =
     (if isProcessing vp then (Already_processing, vp)
      else if config vp = None then (Throws Pipeline_not_initialized, vp)
      else (Started, vp\<lparr> isProcessing := True \<rparr>))"

definition startVoiceInteraction_finally :: "VoicePipeline \<Rightarrow> VoicePipeline" where
  "startVoiceInteraction_finally vp = vp\<lparr> isProcessing := False \<rparr>"

section \<open>Concrete inputs\<close>

definition corpus_chunk :: "jsstring \<Rightarrow> jsstring \<Rightarrow> chunks_row" where
  "corpus_chunk i text_arg =
     \<lparr> c_id = i, c_source_id = i, c_content = text_arg, c_chunk_index = 0, c_total_chunks = 1,
       c_title_thai = utf16 ''T'', c_title_pali = utf16 ''P'', c_pitaka = utf16 ''sutta'',
       c_nikaya = utf16 ''N'' \<rparr>"

definition corpus_embedding :: "jsstring \<Rightarrow> real list \<Rightarrow> embeddings_row" where
  "corpus_embedding i v = \<lparr> e_chunk_id = i, e_embedding = v, e_dimensions = int (length v) \<rparr>"

text \<open>Three chunks with the same embedding, stored in the order b, a, c.\<close>

definition tie_db :: Database where
  "tie_db =
     \<lparr> chunks = [corpus_chunk (utf16 ''b'') (utf16 ''x''), corpus_chunk (utf16 ''a'') (utf16 ''y''),
                 corpus_chunk (utf16 ''c'') (utf16 ''z'')],
       embeddings = [corpus_embedding (utf16 ''b'') [1], corpus_embedding (utf16 ''a'') [1],
                     corpus_embedding (utf16 ''c'') [1]],
       user_chunks = [], user_embeddings = [] \<rparr>"





text \<open>The result the search builds for a chunk of \<open>tie_db\<close>, at distance 0.\<close>

definition tie_result :: "jsstring \<Rightarrow> jsstring \<Rightarrow> VectorSearchResult" where
  "tie_result i text_arg = to_result (corpus_chunk i text_arg, corpus_embedding i [1]) 0"

text \<open>
  A small chunk followed by one of 8200 letters, both with the embedding of the query: the
  second alone is estimated at more than 2048 tokens.
\<close>

definition budget_db :: Database where
  "budget_db =
     \<lparr> chunks = [corpus_chunk (utf16 ''small'') (utf16 ''x''),
                 corpus_chunk (utf16 ''big'') (replicate 8200 0x61)],
       embeddings = [corpus_embedding (utf16 ''small'') [1], corpus_embedding (utf16 ''big'') [1]],
       user_chunks = [], user_embeddings = [] \<rparr>"

definition ready_engine :: RAGEngine where
  "ready_engine = \<lparr> initialized = True \<rparr>"

definition embed_one :: "jsstring \<Rightarrow> real list" where
  "embed_one question = [1]"

definition generate_ok :: "jsstring \<Rightarrow> error + jsstring" where
  "generate_ok prompt = Inr (utf16 ''ok'')"

definition plain_query :: RAGQuery where
  "plain_query = \<lparr> q_question = utf16 ''q'', q_topK = None, q_threshold = None, q_filters = None \<rparr>"

definition top1_query :: RAGQuery where
  "top1_query = \<lparr> q_question = utf16 ''q'', q_topK = Some 1, q_threshold = None, q_filters = None \<rparr>"

text \<open>A runtime with one query waiting for the generation model, and a pipeline at work.\<close>

definition idle_runtime :: rag_runtime where
  "idle_runtime = \<lparr> rt_engine = ready_engine, rt_db = Some tie_db, rt_in_flight = [] \<rparr>"

definition busy_runtime :: rag_runtime where
  "busy_runtime = snd (call_query embed_one 0 plain_query idle_runtime)"

definition busy_pipeline :: VoicePipeline where
  "busy_pipeline = \<lparr> isProcessing = True, config = None \<rparr>"

text \<open>
  What the plain query retrieves from \<open>tie_db\<close>, and the response built from it at the
  time \<open>t\<close> after the start.
\<close>

definition tie_results :: "VectorSearchResult list" where
  "tie_results =
     [tie_result (utf16 ''b'') (utf16 ''x''), tie_result (utf16 ''a'') (utf16 ''y''),
      tie_result (utf16 ''c'') (utf16 ''z'')]"

definition tie_response :: "int \<Rightarrow> RAGResponse" where
  "tie_response t =
     \<lparr> answer = utf16 ''ok'', sources = buildCitations tie_results,
       confidence = calculateConfidence tie_results, processingTime = t \<rparr>"

section \<open>Properties of the Model Manager\<close>

lemma fold_ram_acc:
  "fold (\<lambda>model total. if loaded model then total + ramRequiredMB model else total) ms a
     = a + sum_list (map ramRequiredMB (filter loaded ms))"
  by (induction ms arbitrary: a) auto

lemma getLoadedModelsRAM_sum:
  "getLoadedModelsRAM s = sum_list (map ramRequiredMB (filter loaded (map snd (models s))))"
  by (simp add: getLoadedModelsRAM_def fold_ram_acc)

lemma sum_filter_le:
  "list_all (\<lambda>m. 0 \<le> ramRequiredMB m) ms \<Longrightarrow>
     sum_list (map ramRequiredMB (filter P ms)) \<le> sum_list (map ramRequiredMB ms)"
  by (induction ms) auto

lemma models_modify_ram:
  "(\<And>m. ramRequiredMB (f m) = ramRequiredMB m) \<Longrightarrow>
     map (\<lambda>(k, m). (k, ramRequiredMB m)) (models (modify_model modelId f s))
       = map (\<lambda>(k, m). (k, ramRequiredMB m)) (models s)"
  by (auto simp: modify_model_def)

lemma loadedModels_modify [simp]: "loadedModels (modify_model modelId f s) = loadedModels s"
  by (simp add: modify_model_def)

lemma registry_inv_modify:
  "(\<And>m. ramRequiredMB (f m) = ramRequiredMB m) \<Longrightarrow> registry_inv s \<Longrightarrow> registry_inv (modify_model modelId f s)"
  by (simp add: registry_inv_def models_modify_ram)

lemma registry_inv_constructor: "registry_inv mm_constructor"
  by (simp add: registry_inv_def mm_constructor_def MODELS_CONFIG_def map_set_def)

lemma registry_inv_forget:
  "registry_inv s \<Longrightarrow> registry_inv (s\<lparr>loadedModels := map_delete modelId (loadedModels s)\<rparr>)"
  by (simp add: registry_inv_def map_delete_def)

lemma registry_inv_unload: "registry_inv s \<Longrightarrow> registry_inv (unloadModel modelId s)"
  unfolding unloadModel_def
  by (simp split: option.splits add: registry_inv_modify registry_inv_forget)

lemma registry_inv_evict_loop:
  "registry_inv s \<Longrightarrow> registry_inv (evict_loop es requiredMB freed s)"
  by (induction es requiredMB freed s rule: evict_loop.induct) (auto simp: registry_inv_unload)

lemma registry_inv_ensure: "registry_inv s \<Longrightarrow> registry_inv (ensureMemoryAvailable r s)"
  by (simp add: ensureMemoryAvailable_def Let_def evictModels_def registry_inv_evict_loop)

lemma registry_inv_load: "registry_inv s \<Longrightarrow> registry_inv (snd (loadModel modelId s))"
  unfolding loadModel_def
  by (auto split: option.splits simp: Let_def intro!: registry_inv_modify registry_inv_ensure)

lemma registry_inv_download: "registry_inv s \<Longrightarrow> registry_inv (snd (downloadModel modelId c s))"
  unfolding downloadModel_def
  by (auto split: option.splits intro!: registry_inv_modify)

lemma registry_inv_delete: "registry_inv s \<Longrightarrow> registry_inv (snd (deleteModel modelId s))"
  unfolding deleteModel_def
  by (auto split: option.splits simp: Let_def intro!: registry_inv_modify registry_inv_unload)

lemma registry_inv_initialize: "registry_inv s \<Longrightarrow> registry_inv (mm_initialize fe s)"
  unfolding mm_initialize_def registry_inv_def
  by (auto simp: case_prod_unfold comp_def)

lemma registry_inv_step: "registry_inv s \<Longrightarrow> registry_inv (mm_step c s)"
  by (cases c) (simp_all add: registry_inv_initialize registry_inv_download registry_inv_delete
      registry_inv_load registry_inv_unload)

lemma registry_inv_fold: "registry_inv s \<Longrightarrow> registry_inv (fold mm_step calls s)"
  by (induction calls arbitrary: s) (simp_all add: registry_inv_step)

lemma registry_inv_run: "registry_inv (mm_run calls mm_constructor)"
  by (simp add: mm_run_def registry_inv_fold registry_inv_constructor)

lemma registry_inv_ram_list:
  assumes "registry_inv s"
  shows "map ramRequiredMB (map snd (models s)) = [800, 500, 150, 100, 100]"
proof -
  have "map snd (map (\<lambda>(k, m). (k, ramRequiredMB m)) (models s)) = [800, 500, 150, 100, 100]"
    using assms by (simp add: registry_inv_def MODELS_CONFIG_def)
  then show ?thesis by (simp add: case_prod_unfold comp_def)
qed

lemma registry_inv_bound:
  assumes "registry_inv s"
  shows "getLoadedModelsRAM s \<le> 1650"
proof -
  let ?ms = "map snd (models s)"
  have l: "map ramRequiredMB ?ms = [800, 500, 150, 100, 100]"
    by (rule registry_inv_ram_list [OF assms])
  have "\<forall>r \<in> set (map ramRequiredMB ?ms). 0 \<le> r"
    unfolding l by simp
  then have nn: "list_all (\<lambda>m. 0 \<le> ramRequiredMB m) ?ms"
    by (simp add: list_all_iff)
  have "getLoadedModelsRAM s \<le> sum_list (map ramRequiredMB ?ms)"
    unfolding getLoadedModelsRAM_sum by (rule sum_filter_le [OF nn])
  also have "\<dots> = 1650" unfolding l by simp
  finally show ?thesis .
qed




text \<open>The definitions that evaluate a run of the manager on concrete calls.\<close>

lemmas mm_eval_defs = mm_run_def mm_constructor_def MODELS_CONFIG_def map_set_def map_delete_def
  mm_initialize_def loadModel_def unloadModel_def ensureMemoryAvailable_def evictModels_def
  getLoadedModelsRAM_def modify_model_def maxRAM_def downloadModel_def deleteModel_def Let_def


lemma downloaded_modify:
  "(\<And>m. downloaded (f m) = downloaded m) \<Longrightarrow>
     map (\<lambda>(k, m). (k, downloaded m)) (models (modify_model modelId f s))
       = map (\<lambda>(k, m). (k, downloaded m)) (models s)"
  by (auto simp: modify_model_def)

lemma downloaded_unload:
  "map (\<lambda>(k, m). (k, downloaded m)) (models (unloadModel modelId s))
     = map (\<lambda>(k, m). (k, downloaded m)) (models s)"
  unfolding unloadModel_def by (simp split: option.splits add: downloaded_modify)

lemma downloaded_evict_loop:
  "map (\<lambda>(k, m). (k, downloaded m)) (models (evict_loop es requiredMB freed s))
     = map (\<lambda>(k, m). (k, downloaded m)) (models s)"
  by (induction es requiredMB freed s rule: evict_loop.induct) (simp_all add: downloaded_unload)

lemma downloaded_evict:
  "map (\<lambda>(k, m). (k, downloaded m)) (models (evictModels r s))
     = map (\<lambda>(k, m). (k, downloaded m)) (models s)"
  by (simp add: evictModels_def downloaded_evict_loop)

lemma downloaded_ensure:
  "map (\<lambda>(k, m). (k, downloaded m)) (models (ensureMemoryAvailable r s))
     = map (\<lambda>(k, m). (k, downloaded m)) (models s)"
  by (simp add: ensureMemoryAvailable_def Let_def downloaded_evict)

lemma downloaded_load:
  "map (\<lambda>(k, m). (k, downloaded m)) (models (snd (loadModel modelId s)))
     = map (\<lambda>(k, m). (k, downloaded m)) (models s)"
  unfolding loadModel_def
  by (simp split: option.splits add: Let_def downloaded_modify downloaded_ensure)

text \<open>
  Claim C10. In every state of the manager, \<open>loadModel\<close> (with the eviction it may run),
  \<open>unloadModel\<close> and \<open>evictModels\<close> leave the \<open>downloaded\<close> flag of every model of the
  registry as it was.
\<close>

theorem load_unload_keep_downloaded:
  "map (\<lambda>(k, m). (k, downloaded m)) (models (snd (loadModel modelId s)))
     = map (\<lambda>(k, m). (k, downloaded m)) (models s) \<and>
   map (\<lambda>(k, m). (k, downloaded m)) (models (unloadModel modelId s))
     = map (\<lambda>(k, m). (k, downloaded m)) (models s) \<and>
   map (\<lambda>(k, m). (k, downloaded m)) (models (evictModels requiredMB s))
     = map (\<lambda>(k, m). (k, downloaded m)) (models s)"
  by (simp add: downloaded_load downloaded_unload downloaded_evict)


lemma map_of_modify:
  "map_of (models (modify_model modelId f s)) k
     = (if k = modelId then map_option f (map_of (models s) k) else map_of (models s) k)"
proof -
  have "map_of (map (\<lambda>(k', m). if k' = modelId then (k', f m) else (k', m)) xs) k
     = (if k = modelId then map_option f (map_of xs k) else map_of xs k)" for xs
    by (induction xs) auto
  then show ?thesis by (simp add: modify_model_def)
qed

lemma modify_model_absorb:
  "(\<And>m. f (g m) = f m) \<Longrightarrow> modify_model modelId f (modify_model modelId g s) = modify_model modelId f s"
  by (simp add: modify_model_def case_prod_unfold comp_def cong: if_cong)

lemma modify_model_idem:
  "(\<And>m. f (f m) = f m) \<Longrightarrow> modify_model modelId f (modify_model modelId f s) = modify_model modelId f s"
  by (rule modify_model_absorb)

lemma registry_inv_ram_le:
  assumes "registry_inv s" and "map_of (models s) k = Some m"
  shows "ramRequiredMB m \<le> 800"
proof -
  have "(k, m) \<in> set (models s)" using assms(2) by (rule map_of_SomeD)
  then have "ramRequiredMB m \<in> set (map ramRequiredMB (map snd (models s)))" by force
  then show ?thesis unfolding registry_inv_ram_list [OF assms(1)] by auto
qed

lemma ensure_noop:
  assumes "registry_inv s" and "r \<le> 800"
  shows "ensureMemoryAvailable r s = s"
  using registry_inv_bound [OF assms(1)] assms(2)
  by (simp add: ensureMemoryAvailable_def Let_def maxRAM_def)

lemma loadModel_reachable:
  assumes inv: "registry_inv s"
  shows "loadModel modelId s =
     (case map_of (models s) modelId of
        None \<Rightarrow> (Inl (Model_not_found modelId), s)
      | Some model \<Rightarrow>
          if \<not> downloaded model then (Inl (Model_not_downloaded modelId), s)
          else (Inr None, modify_model modelId (\<lambda>m. m\<lparr>loaded := True\<rparr>) s))"
proof (cases "map_of (models s) modelId")
  case None
  then show ?thesis by (simp add: loadModel_def)
next
  case (Some model)
  have e: "loadedModels s = []" using inv by (simp add: registry_inv_def)
  have n: "ensureMemoryAvailable (ramRequiredMB model) s = s"
    by (rule ensure_noop [OF inv registry_inv_ram_le [OF inv Some]])
  show ?thesis using Some by (simp add: loadModel_def e n)
qed

text \<open>
  Claim C9. In a state the manager can reach, when \<open>loadModel\<close> succeeds for a model, a second
  \<open>loadModel\<close> for the same model right after it returns the same handle, and
  \<open>getLoadedModelsRAM\<close> is what it was after the first call.
\<close>

theorem loadModel_twice_same_handle:
  assumes "s = mm_run calls mm_constructor"
    and "loadModel modelId s = (Inr h1, s1)"
  shows "fst (loadModel modelId s1) = Inr h1 \<and>
         getLoadedModelsRAM (snd (loadModel modelId s1)) = getLoadedModelsRAM s1"
proof -
  have inv: "registry_inv s" unfolding assms(1) by (rule registry_inv_run)
  have inv1: "registry_inv s1"
    using registry_inv_load [OF inv, of modelId] assms(2) by simp
  obtain model where m: "map_of (models s) modelId = Some model" and d: "downloaded model"
    and h: "h1 = None" and s1: "s1 = modify_model modelId (\<lambda>m. m\<lparr>loaded := True\<rparr>) s"
    using assms(2) unfolding loadModel_reachable [OF inv]
    by (auto split: option.splits if_splits)
  have m1: "map_of (models s1) modelId = Some (model\<lparr>loaded := True\<rparr>)"
    unfolding s1 by (simp add: map_of_modify m)
  have idem: "modify_model modelId (\<lambda>m. m\<lparr>loaded := True\<rparr>) s1 = s1"
    unfolding s1 by (rule modify_model_idem) simp
  have "loadModel modelId s1 = (Inr h1, s1)"
    unfolding loadModel_reachable [OF inv1] by (simp add: m1 d h idem)
  then show ?thesis by simp
qed

text \<open>Loading the larger speech model twice: 500 MB after the first call and after the second.\<close>

theorem loadModel_twice_same_handle_witness:
  "loadModel ''whisper-small-thai'' (mm_run [Initialize (\<lambda>p. True)] mm_constructor)
     = (Inr None, mm_run [Initialize (\<lambda>p. True), LoadModel ''whisper-small-thai''] mm_constructor) \<and>
   fst (loadModel ''whisper-small-thai''
       (mm_run [Initialize (\<lambda>p. True), LoadModel ''whisper-small-thai''] mm_constructor)) = Inr None \<and>
   getLoadedModelsRAM (snd (loadModel ''whisper-small-thai''
       (mm_run [Initialize (\<lambda>p. True), LoadModel ''whisper-small-thai''] mm_constructor))) = 500 \<and>
   getLoadedModelsRAM
       (mm_run [Initialize (\<lambda>p. True), LoadModel ''whisper-small-thai''] mm_constructor) = 500"
proof -
  have l: "loadModel ''whisper-small-thai'' (mm_run [Initialize (\<lambda>p. True)] mm_constructor)
     = (Inr None, mm_run [Initialize (\<lambda>p. True), LoadModel ''whisper-small-thai''] mm_constructor)"
    by (simp add: mm_eval_defs)
  have r: "getLoadedModelsRAM
       (mm_run [Initialize (\<lambda>p. True), LoadModel ''whisper-small-thai''] mm_constructor) = 500"
    by (simp add: mm_eval_defs)
  show ?thesis
    using loadModel_twice_same_handle [OF refl l] l r by simp
qed

text \<open>
  In the crowded registry, loading the second model evicts the first: its \<open>loaded\<close> flag
  falls, its \<open>downloaded\<close> flag stays.
\<close>

theorem load_unload_keep_downloaded_witness:
  "map (\<lambda>(k, m). (k, downloaded m, loaded m)) (models (snd (loadModel ''tts-big'' crowded)))
     = [(''asr-big'', True, False), (''tts-big'', True, True)] \<and>
   map (\<lambda>(k, m). (k, downloaded m)) (models (snd (loadModel ''tts-big'' crowded)))
     = map (\<lambda>(k, m). (k, downloaded m)) (models crowded)"
  using load_unload_keep_downloaded [of "''tts-big''" crowded 0]
  by (simp add: mm_eval_defs crowded_def)

section \<open>Properties of the vector search\<close>

text \<open>The definitions that evaluate a search on a concrete database.\<close>

lemmas db_eval_defs = vectorSearch_def scored_rows_def select_chunks_join_embeddings_def
  score_row_def cosineDistance_def cosine_loop_def to_result_def blobToVector_def
  sort_by_score_def slice0_def List.map_filter_def utf16_def corpus_chunk_def
  corpus_embedding_def retrieveChunks_def addUserChunk_def vectorToBlob_def Let_def

subsection \<open>Slicing and sorting\<close>

lemma slice0_nonneg: "0 \<le> cap \<Longrightarrow> slice0 xs cap = take (nat \<lfloor>cap\<rfloor>) xs"
  by (simp add: slice0_def Let_def)

lemma slice0_length: "0 \<le> cap \<Longrightarrow> real (length (slice0 xs cap)) \<le> cap"
proof -
  assume l: "0 \<le> cap"
  have "real (length (take (nat \<lfloor>cap\<rfloor>) xs)) \<le> real (nat \<lfloor>cap\<rfloor>)" by simp
  also have "\<dots> = of_int \<lfloor>cap\<rfloor>" using l by simp
  also have "\<dots> \<le> cap" by (rule of_int_floor_le)
  finally show ?thesis using l by (simp add: slice0_nonneg)
qed

lemma slice0_is_take: "\<exists>n. slice0 xs cap = take n xs"
  by (auto simp: slice0_def Let_def)

lemma set_slice0: "set (slice0 xs cap) \<subseteq> set xs"
  using slice0_is_take [of xs cap] by (auto dest: in_set_takeD)

lemma sort_by_score_descending: "sorted_wrt (\<lambda>x y. score x \<ge> score y) (sort_by_score rs)"
proof -
  have "sorted (map (\<lambda>r. - score r) (sort_key (\<lambda>r. - score r) rs))" by (rule sorted_sort_key)
  then show ?thesis by (simp add: sort_by_score_def sorted_map)
qed

lemma sorted_wrt_slice0: "sorted_wrt P xs \<Longrightarrow> sorted_wrt P (slice0 xs cap)"
  using slice0_is_take [of xs cap] by (auto simp: sorted_wrt_take)

lemma filter_take_prefix: "prefix (filter P (take n xs)) (filter P xs)"
proof -
  have "filter P xs = filter P (take n xs) @ filter P (drop n xs)"
    by (metis append_take_drop_id filter_append)
  then show ?thesis by (simp add: prefix_def)
qed

lemma sort_by_score_stable:
  "filter (\<lambda>r. score r = k) (sort_by_score rs) = filter (\<lambda>r. score r = k) rs"
  using sort_key_stable [of "\<lambda>r. - score r" "- k" rs] by (simp add: sort_by_score_def)

lemma ties_slice0_sort:
  "prefix (filter (\<lambda>r. score r = k) (slice0 (sort_by_score rs) cap)) (filter (\<lambda>r. score r = k) rs)"
proof -
  obtain n where n: "slice0 (sort_by_score rs) cap = take n (sort_by_score rs)"
    using slice0_is_take by blast
  show ?thesis unfolding n
    using filter_take_prefix [of "\<lambda>r. score r = k" n "sort_by_score rs"]
    by (simp add: sort_by_score_stable)
qed

lemma score_row_threshold: "score_row q t row = Some r \<Longrightarrow> score r \<ge> t"
  by (auto simp: score_row_def split: option.splits if_splits)

lemma in_set_map_filter:
  "r \<in> set (List.map_filter f xs) \<longleftrightarrow> (\<exists>x \<in> set xs. f x = Some r)"
  by (induction xs) (auto split: option.splits)

lemma scored_rows_threshold: "r \<in> set (scored_rows d q t) \<Longrightarrow> score r \<ge> t"
  by (auto simp: scored_rows_def in_set_map_filter score_row_threshold)

lemma vectorSearch_open:
  "vectorSearch (Some d) q limit_arg threshold_arg =
     Inr (slice0 (sort_by_score (scored_rows d q (case threshold_arg of None \<Rightarrow> 7 / 10 | Some t \<Rightarrow> t)))
            (case limit_arg of None \<Rightarrow> 10 | Some l \<Rightarrow> l))"
  by (simp add: vectorSearch_def Let_def)

lemma vectorSearch_result:
  assumes "vectorSearch (Some d) q limit_arg threshold_arg = Inr rs"
    and "cap = (case limit_arg of None \<Rightarrow> 10 | Some l \<Rightarrow> l)"
    and "thr = (case threshold_arg of None \<Rightarrow> 7 / 10 | Some t \<Rightarrow> t)"
  shows "rs = slice0 (sort_by_score (scored_rows d q thr)) cap"
proof -
  have "vectorSearch (Some d) q limit_arg threshold_arg
          = Inr (slice0 (sort_by_score (scored_rows d q thr)) cap)"
    unfolding assms(2,3) by (rule vectorSearch_open)
  with assms(1) show ?thesis by simp
qed

lemma slice0_sort_threshold:
  assumes "r \<in> set (slice0 (sort_by_score (scored_rows d q thr)) cap)"
  shows "score r \<ge> thr"
proof -
  have "r \<in> set (sort_by_score (scored_rows d q thr))"
    by (rule subsetD [OF set_slice0 assms])
  then have "r \<in> set (scored_rows d q thr)" by (simp only: sort_by_score_def set_sort)
  then show ?thesis by (rule scored_rows_threshold)
qed

text \<open>
  Claim C6, as the code has it. For a limit that is not negative, \<open>vectorSearch\<close> returns
  at most \<open>limit\<close> results, each with a score of at least the threshold, in descending
  order of score; results of equal score stand in the order in which the store returned
  their rows (the chunk id plays no part), so the output is determined by the rows and
  their order.
\<close>

theorem vectorSearch_capped_sorted_stable:
  assumes "vectorSearch (Some d) q limit_arg threshold_arg = Inr rs"
    and "cap = (case limit_arg of None \<Rightarrow> 10 | Some l \<Rightarrow> l)"
    and "thr = (case threshold_arg of None \<Rightarrow> 7 / 10 | Some t \<Rightarrow> t)"
    and "0 \<le> cap"
  shows "real (length rs) \<le> cap \<and>
         (\<forall>r \<in> set rs. score r \<ge> thr) \<and>
         sorted_wrt (\<lambda>x y. score x \<ge> score y) rs \<and>
         (\<forall>k. prefix (filter (\<lambda>r. score r = k) rs) (filter (\<lambda>r. score r = k) (scored_rows d q thr)))"
proof -
  define out where "out = slice0 (sort_by_score (scored_rows d q thr)) cap"
  have eq: "rs = out"
    unfolding out_def by (rule vectorSearch_result [OF assms(1,2,3)])
  have a: "real (length out) \<le> cap"
    unfolding out_def by (rule slice0_length [OF assms(4)])
  have b: "\<forall>r \<in> set out. score r \<ge> thr"
    unfolding out_def by (intro ballI) (rule slice0_sort_threshold)
  have c: "sorted_wrt (\<lambda>x y. score x \<ge> score y) out"
    unfolding out_def by (rule sorted_wrt_slice0 [OF sort_by_score_descending])
  have e: "\<forall>k. prefix (filter (\<lambda>r. score r = k) out) (filter (\<lambda>r. score r = k) (scored_rows d q thr))"
    unfolding out_def by (simp add: ties_slice0_sort)
  from a b c e show ?thesis unfolding eq by (intro conjI)
qed


text \<open>Three chunks tie at score 1 and the limit is 2: the first two rows are returned.\<close>

theorem vectorSearch_capped_sorted_stable_witness:
  "vectorSearch (Some tie_db) [1] (Some 2) (Some (1 / 2)) =
      Inr [tie_result (utf16 ''b'') (utf16 ''x''), tie_result (utf16 ''a'') (utf16 ''y'')] \<and>
   real (length [tie_result (utf16 ''b'') (utf16 ''x''), tie_result (utf16 ''a'') (utf16 ''y'')]) \<le> 2 \<and>
   sorted_wrt (\<lambda>x y. score x \<ge> score y)
      [tie_result (utf16 ''b'') (utf16 ''x''), tie_result (utf16 ''a'') (utf16 ''y'')]"
proof -
  have v: "vectorSearch (Some tie_db) [1] (Some 2) (Some (1 / 2)) =
      Inr [tie_result (utf16 ''b'') (utf16 ''x''), tie_result (utf16 ''a'') (utf16 ''y'')]"
    by (simp add: db_eval_defs tie_db_def tie_result_def)
  have c: "(0::real) \<le> (case Some 2 of None \<Rightarrow> 10 | Some l \<Rightarrow> l)" by simp
  note t = vectorSearch_capped_sorted_stable [OF v refl refl c, simplified option.case]
  from t v show ?thesis by blast
qed

text \<open>
  Claim C6 as stated fails: three chunks of equal score stored in the order b, a, c are
  returned in that order, which is no order of their ids.
\<close>

theorem tie_order_counterexample:
  "(case vectorSearch (Some tie_db) [1] (Some 5) (Some (1 / 2)) of
      Inl e \<Rightarrow> [] | Inr rs \<Rightarrow> map (\<lambda>r. (r_id r, score r)) rs)
     = [(utf16 ''b'', 1), (utf16 ''a'', 1), (utf16 ''c'', 1)]"
  by (simp add: db_eval_defs tie_db_def)

subsection \<open>Embeddings of another dimension\<close>












subsection \<open>The score\<close>




lemma dot_self_nonneg: "0 \<le> dot a a"
  unfolding dot_def by (rule sum_nonneg) simp









subsection \<open>The candidates\<close>












section \<open>Properties of the RAG engine\<close>

text \<open>The definitions that evaluate a query on concrete inputs.\<close>

lemmas rag_eval_defs = query_def query_start_def query_finish_def generateAnswer_def
  buildContext_def buildCitations_def to_citation_def calculateConfidence_def
  included_results_def format_chunk_def estimateTokens_def is_thai_def or_default_def
  DEFAULT_TOP_K_def DEFAULT_THRESHOLD_def MAX_CONTEXT_TOKENS_def ready_engine_def
  embed_one_def generate_ok_def plain_query_def top1_query_def call_query_def
  settle_query_def idle_runtime_def busy_runtime_def filter_replicate

subsection \<open>Context and citations\<close>

lemma buildContext_loop_included:
  "buildContext_loop rs t acc = acc @ map format_chunk (included_loop rs t)"
  by (induction rs arbitrary: t acc) (simp_all add: Let_def)

lemma buildContext_included:
  "buildContext rs = js_join [0x0A, 0x2D, 0x2D, 0x2D, 0x0A] (map format_chunk (included_results rs))"
  by (simp add: buildContext_def included_results_def buildContext_loop_included)

lemma included_loop_prefix: "prefix (included_loop rs t) rs"
  by (induction rs arbitrary: t) (simp_all add: Let_def)

lemma estimateTokens_nonneg: "0 \<le> estimateTokens s"
proof -
  have "\<lceil>0::real\<rceil> \<le> \<lceil>real (length (filter is_thai s)) / 2
          + real (length s - length (filter is_thai s)) / 4\<rceil>"
    by (rule ceiling_mono) simp
  then show ?thesis unfolding estimateTokens_def Let_def by (simp only: ceiling_zero)
qed

lemma sum_tokens_nonneg: "0 \<le> sum_list (map (\<lambda>r. estimateTokens (format_chunk r)) rs)"
  by (rule sum_list_nonneg) (auto simp: estimateTokens_nonneg)

lemma included_loop_all:
  "t + sum_list (map (\<lambda>r. estimateTokens (format_chunk r)) rs) \<le> MAX_CONTEXT_TOKENS
     \<Longrightarrow> included_loop rs t = rs"
proof (induction rs arbitrary: t)
  case Nil
  show ?case by simp
next
  case (Cons r rs)
  have "0 \<le> sum_list (map (\<lambda>r. estimateTokens (format_chunk r)) rs)" by (rule sum_tokens_nonneg)
  with Cons.prems have fit: "\<not> t + estimateTokens (format_chunk r) > MAX_CONTEXT_TOKENS" by simp
  from Cons.prems have "(t + estimateTokens (format_chunk r))
      + sum_list (map (\<lambda>r. estimateTokens (format_chunk r)) rs) \<le> MAX_CONTEXT_TOKENS" by simp
  then have "included_loop rs (t + estimateTokens (format_chunk r)) = rs" by (rule Cons.IH)
  with fit show ?case by (simp add: Let_def)
qed

lemma query_Inr:
  assumes "query engine db getQueryEmbedding generate startTime endTime q = Inr resp"
  shows "\<exists>p. query_start engine db getQueryEmbedding startTime q = Inr p \<and>
             generate (build_prompt (q_question q) (pq_context p)) = Inr (answer resp) \<and>
             sources resp = buildCitations (pq_searchResults p) \<and>
             confidence resp = calculateConfidence (pq_searchResults p) \<and>
             pq_context p = buildContext (pq_searchResults p)"
proof (cases "query_start engine db getQueryEmbedding startTime q")
  case (Inl e)
  with assms show ?thesis by (simp add: query_def)
next
  case (Inr p)
  note st = Inr
  have c: "pq_context p = buildContext (pq_searchResults p)"
    using st by (auto simp: query_start_def Let_def split: if_splits sum.splits)
  show ?thesis
  proof (cases "generate (build_prompt (q_question q) (pq_context p))")
    case (Inl e)
    with assms st show ?thesis by (simp add: query_def query_finish_def generateAnswer_def)
  next
    case (Inr generated)
    note g = Inr
    from assms st g have "resp = \<lparr> answer = generated, sources = buildCitations (pq_searchResults p),
        confidence = calculateConfidence (pq_searchResults p),
        processingTime = endTime - pq_startTime p \<rparr>"
      by (simp add: query_def query_finish_def generateAnswer_def)
    then show ?thesis using st g c by simp
  qed
qed

text \<open>
  Claim C1, as the code has it. The citations of a response are built from all the
  results retrieved for the query, one citation for each, in order. The context given to
  the generation model holds the chunks of a leading part of those results, up to the
  first that would take the estimate over 2048 tokens; so every chunk in the context is
  cited, and when the chunks of all the results fit in the budget the citations are
  exactly those of the chunks in the context.
\<close>

theorem citations_cover_retrieved_results:
  assumes "query engine db getQueryEmbedding generate startTime endTime q = Inr resp"
  shows "\<exists>p. query_start engine db getQueryEmbedding startTime q = Inr p \<and>
           generate (build_prompt (q_question q) (pq_context p)) = Inr (answer resp) \<and>
           pq_context p = js_join [0x0A, 0x2D, 0x2D, 0x2D, 0x0A]
                            (map format_chunk (included_results (pq_searchResults p))) \<and>
           sources resp = map to_citation (pq_searchResults p) \<and>
           prefix (included_results (pq_searchResults p)) (pq_searchResults p) \<and>
           (sum_list (map (\<lambda>r. estimateTokens (format_chunk r)) (pq_searchResults p))
                \<le> MAX_CONTEXT_TOKENS
              \<longrightarrow> sources resp = map to_citation (included_results (pq_searchResults p)))"
proof -
  from query_Inr [OF assms] obtain p where
    p: "query_start engine db getQueryEmbedding startTime q = Inr p"
    and g: "generate (build_prompt (q_question q) (pq_context p)) = Inr (answer resp)"
    and s: "sources resp = buildCitations (pq_searchResults p)"
    and c: "pq_context p = buildContext (pq_searchResults p)" by blast
  have c': "pq_context p = js_join [0x0A, 0x2D, 0x2D, 0x2D, 0x0A]
                            (map format_chunk (included_results (pq_searchResults p)))"
    unfolding c by (rule buildContext_included)
  have s': "sources resp = map to_citation (pq_searchResults p)"
    unfolding s by (simp add: buildCitations_def)
  have pre: "prefix (included_results (pq_searchResults p)) (pq_searchResults p)"
    unfolding included_results_def by (rule included_loop_prefix)
  have fit: "sum_list (map (\<lambda>r. estimateTokens (format_chunk r)) (pq_searchResults p))
                \<le> MAX_CONTEXT_TOKENS
              \<longrightarrow> sources resp = map to_citation (included_results (pq_searchResults p))"
  proof
    assume "sum_list (map (\<lambda>r. estimateTokens (format_chunk r)) (pq_searchResults p))
                \<le> MAX_CONTEXT_TOKENS"
    then have "included_loop (pq_searchResults p) 0 = pq_searchResults p"
      by (intro included_loop_all) simp
    then show "sources resp = map to_citation (included_results (pq_searchResults p))"
      unfolding s' included_results_def by simp
  qed
  from p g c' s' pre fit show ?thesis by blast
qed

text \<open>
  Claim C1 as stated fails: of two retrieved chunks the second does not fit in the budget
  and is not in the context, and the response cites both.
\<close>

theorem dropped_chunk_cited_counterexample:
  "(case query ready_engine (Some budget_db) embed_one generate_ok 0 1 plain_query of
      Inl e \<Rightarrow> [] | Inr resp \<Rightarrow> map suttaId (sources resp)) = [utf16 ''small'', utf16 ''big''] \<and>
   (case query_start ready_engine (Some budget_db) embed_one 0 plain_query of
      Inl e \<Rightarrow> None
    | Inr p \<Rightarrow> Some (pq_context p, map r_id (included_results (pq_searchResults p))))
     = Some (utf16 ''[T]'' @ [0x0A] @ utf16 ''x'' @ [0x0A], [utf16 ''small''])"
  by (simp add: db_eval_defs rag_eval_defs budget_db_def)

subsection \<open>Confidence\<close>

lemma fold_score_sum: "fold (\<lambda>r sum. sum + score r) rs a = a + sum_list (map score rs)"
  by (induction rs arbitrary: a) simp_all

lemma calculateConfidence_formula:
  "calculateConfidence rs =
     (if rs = [] then 0
      else (sum_list (map score rs) / real (length rs)) * min (real (length rs) / 5) 1)"
  by (simp add: calculateConfidence_def fold_score_sum DEFAULT_TOP_K_def Let_def)

text \<open>
  Claim C8, as the code has it, in exact arithmetic. The confidence of a response is the
  average score of all the results retrieved for the query, times the smaller of 1 and
  their number divided by 5, the constant \<open>DEFAULT_TOP_K\<close>, whatever \<open>topK\<close> the query
  gives; it is 0 when nothing was retrieved.
\<close>

theorem confidence_of_retrieved_results:
  assumes "query engine db getQueryEmbedding generate startTime endTime q = Inr resp"
  shows "\<exists>p. query_start engine db getQueryEmbedding startTime q = Inr p \<and>
           confidence resp =
             (if pq_searchResults p = [] then 0
              else (sum_list (map score (pq_searchResults p)) / real (length (pq_searchResults p)))
                     * min (real (length (pq_searchResults p)) / 5) 1)"
proof -
  from query_Inr [OF assms] obtain p where
    p: "query_start engine db getQueryEmbedding startTime q = Inr p"
    and c: "confidence resp = calculateConfidence (pq_searchResults p)" by blast
  from p c show ?thesis unfolding calculateConfidence_formula by blast
qed

text \<open>
  Claim C8 as stated fails: with \<open>topK = 1\<close> and one result of score 1 included in the
  context, the formula of the specification gives 1 and the response has confidence 1/5.
\<close>

theorem confidence_counterexample:
  "(case query ready_engine (Some tie_db) embed_one generate_ok 0 1 top1_query of
      Inl e \<Rightarrow> None | Inr resp \<Rightarrow> Some (confidence resp)) = Some (1 / 5) \<and>
   (case query_start ready_engine (Some tie_db) embed_one 0 top1_query of
      Inl e \<Rightarrow> None
    | Inr p \<Rightarrow> Some (map score (included_results (pq_searchResults p)))) = Some [1] \<and>
   spec_confidence [1] 1 = 1"
  by (simp add: db_eval_defs rag_eval_defs tie_db_def spec_confidence_def)

subsection \<open>Queries in flight\<close>

lemma retrieveChunks_open: "\<exists>rs. retrieveChunks (Some d) qe k t fl = Inr rs"
  by (simp add: retrieveChunks_def vectorSearch_def Let_def)

lemma query_start_ready:
  assumes "initialized engine"
  shows "\<exists>p. query_start engine (Some d) getQueryEmbedding startTime q = Inr p"
proof -
  obtain rs where "retrieveChunks (Some d) (getQueryEmbedding (q_question q))
      (or_default (q_topK q) DEFAULT_TOP_K) (or_default (q_threshold q) DEFAULT_THRESHOLD)
      (q_filters q) = Inr rs"
    using retrieveChunks_open by blast
  then show ?thesis using assms by (simp add: query_start_def Let_def)
qed

lemma settle_query_append:
  assumes "i < length (rt_in_flight rt)"
  shows "fst (settle_query i generate endTime (rt\<lparr>rt_in_flight := rt_in_flight rt @ [p]\<rparr>))
           = fst (settle_query i generate endTime rt)"
  using assms by (simp add: settle_query_def Let_def nth_append)

text \<open>
  Claim C3, as the code has it. \<open>query\<close> has no guard against a query in flight: with the
  engine initialised and the database open, a call is admitted whatever is in flight, it
  joins the queries waiting for the generation model, and each query that was waiting
  before gets the response it would have got without the new call. The guard is in the
  voice pipeline: \<open>startVoiceInteraction\<close>, called while an interaction is running,
  returns at once, without an error and without a change of state.
\<close>

theorem query_admits_concurrent_calls:
  assumes "initialized (rt_engine rt)" and "rt_db rt = Some d"
  shows "\<exists>p. call_query getQueryEmbedding startTime q rt
                = (None, rt\<lparr>rt_in_flight := rt_in_flight rt @ [p]\<rparr>) \<and>
             (\<forall>i < length (rt_in_flight rt).
                fst (settle_query i generate endTime (rt\<lparr>rt_in_flight := rt_in_flight rt @ [p]\<rparr>))
                  = fst (settle_query i generate endTime rt)) \<and>
             (isProcessing vp \<longrightarrow> startVoiceInteraction_enter vp = (Already_processing, vp))"
proof -
  obtain p where p: "query_start (rt_engine rt) (rt_db rt) getQueryEmbedding startTime q = Inr p"
    unfolding assms(2) using query_start_ready [OF assms(1)] by blast
  have a: "call_query getQueryEmbedding startTime q rt
                = (None, rt\<lparr>rt_in_flight := rt_in_flight rt @ [p]\<rparr>)"
    by (simp add: call_query_def p)
  have b: "\<forall>i < length (rt_in_flight rt).
                fst (settle_query i generate endTime (rt\<lparr>rt_in_flight := rt_in_flight rt @ [p]\<rparr>))
                  = fst (settle_query i generate endTime rt)"
    by (simp add: settle_query_append)
  have c: "isProcessing vp \<longrightarrow> startVoiceInteraction_enter vp = (Already_processing, vp)"
    by (simp add: startVoiceInteraction_enter_def)
  from a b c show ?thesis by blast
qed


text \<open>The plain query on \<open>tie_db\<close>: three results, six tokens of context.\<close>

lemma tie_query_start:
  "query_start ready_engine (Some tie_db) embed_one t plain_query
     = Inr \<lparr> pq_query = plain_query, pq_startTime = t, pq_searchResults = tie_results,
             pq_context = buildContext tie_results \<rparr>"
  by (simp add: db_eval_defs query_start_def or_default_def DEFAULT_TOP_K_def
      DEFAULT_THRESHOLD_def ready_engine_def embed_one_def plain_query_def tie_db_def
      tie_results_def tie_result_def)

lemma tie_query_response:
  "query ready_engine (Some tie_db) embed_one generate_ok 0 t plain_query = Inr (tie_response t)"
  by (simp add: query_def tie_query_start query_finish_def generateAnswer_def generate_ok_def
      tie_response_def)

lemma tie_results_tokens:
  "sum_list (map (\<lambda>r. estimateTokens (format_chunk r)) tie_results) = 6"
  by (simp add: tie_results_def tie_result_def to_result_def corpus_chunk_def utf16_def
      format_chunk_def estimateTokens_def is_thai_def)

text \<open>All three chunks fit: each citation is that of a chunk in the context.\<close>

theorem citations_cover_retrieved_results_witness:
  "query ready_engine (Some tie_db) embed_one generate_ok 0 1 plain_query = Inr (tie_response 1) \<and>
   sources (tie_response 1) = map to_citation tie_results \<and>
   sources (tie_response 1) = map to_citation (included_results tie_results) \<and>
   prefix (included_results tie_results) tie_results"
proof -
  from citations_cover_retrieved_results [OF tie_query_response [of 1]]
  obtain p where p: "query_start ready_engine (Some tie_db) embed_one 0 plain_query = Inr p"
    and s: "sources (tie_response 1) = map to_citation (pq_searchResults p)"
    and pre: "prefix (included_results (pq_searchResults p)) (pq_searchResults p)"
    and fit: "sum_list (map (\<lambda>r. estimateTokens (format_chunk r)) (pq_searchResults p))
                \<le> MAX_CONTEXT_TOKENS
              \<longrightarrow> sources (tie_response 1) = map to_citation (included_results (pq_searchResults p))"
    by blast
  have r: "pq_searchResults p = tie_results" using p unfolding tie_query_start by auto
  have "sum_list (map (\<lambda>r. estimateTokens (format_chunk r)) tie_results) \<le> MAX_CONTEXT_TOKENS"
    unfolding tie_results_tokens by (simp add: MAX_CONTEXT_TOKENS_def)
  with fit s pre tie_query_response [of 1] show ?thesis unfolding r by blast
qed

lemma tie_confidence: "calculateConfidence tie_results = 3 / 5"
  by (simp add: calculateConfidence_def DEFAULT_TOP_K_def tie_results_def tie_result_def
      to_result_def)

text \<open>Three results of score 1 give the confidence 3/5.\<close>

theorem confidence_of_retrieved_results_witness:
  "query ready_engine (Some tie_db) embed_one generate_ok 0 1 plain_query = Inr (tie_response 1) \<and>
   confidence (tie_response 1) = 3 / 5 \<and>
   confidence (tie_response 1) =
     (sum_list (map score tie_results) / real (length tie_results))
        * min (real (length tie_results) / 5) 1"
proof -
  from confidence_of_retrieved_results [OF tie_query_response [of 1]]
  obtain p where p: "query_start ready_engine (Some tie_db) embed_one 0 plain_query = Inr p"
    and c: "confidence (tie_response 1) =
             (if pq_searchResults p = [] then 0
              else (sum_list (map score (pq_searchResults p)) / real (length (pq_searchResults p)))
                     * min (real (length (pq_searchResults p)) / 5) 1)"
    by blast
  have r: "pq_searchResults p = tie_results" using p unfolding tie_query_start by auto
  have n: "tie_results \<noteq> []" by (simp add: tie_results_def)
  have v: "confidence (tie_response 1) = 3 / 5" by (simp add: tie_response_def tie_confidence)
  from c n have "confidence (tie_response 1) =
     (sum_list (map score tie_results) / real (length tie_results))
        * min (real (length tie_results) / 5) 1"
    unfolding r by (simp only: if_False)
  with v tie_query_response [of 1] show ?thesis by blast
qed

lemma busy_runtime_eq:
  "busy_runtime = \<lparr> rt_engine = ready_engine, rt_db = Some tie_db,
      rt_in_flight = [\<lparr> pq_query = plain_query, pq_startTime = 0, pq_searchResults = tie_results,
             pq_context = buildContext tie_results \<rparr>] \<rparr>"
  by (simp add: busy_runtime_def call_query_def idle_runtime_def tie_query_start)

text \<open>
  A second query is called while the first waits; the first then completes with its
  response.
\<close>

theorem query_admits_concurrent_calls_witness:
  "length (rt_in_flight busy_runtime) = 1 \<and>
   fst (call_query embed_one 1 plain_query busy_runtime) = None \<and>
   fst (settle_query 0 generate_ok 5 (snd (call_query embed_one 1 plain_query busy_runtime)))
     = Some (Inr (tie_response 5)) \<and>
   startVoiceInteraction_enter busy_pipeline = (Already_processing, busy_pipeline)"
proof -
  have i: "initialized (rt_engine busy_runtime)" by (simp add: busy_runtime_eq ready_engine_def)
  have d: "rt_db busy_runtime = Some tie_db" by (simp add: busy_runtime_eq)
  have l: "length (rt_in_flight busy_runtime) = 1" by (simp add: busy_runtime_eq)
  have b: "isProcessing busy_pipeline" by (simp add: busy_pipeline_def)
  have f: "fst (settle_query 0 generate_ok 5 busy_runtime) = Some (Inr (tie_response 5))"
    by (simp add: busy_runtime_eq settle_query_def query_finish_def generateAnswer_def
        generate_ok_def tie_response_def)
  from query_admits_concurrent_calls [OF i d, of embed_one 1 plain_query generate_ok 5 busy_pipeline]
  obtain p where c: "call_query embed_one 1 plain_query busy_runtime
                = (None, busy_runtime\<lparr>rt_in_flight := rt_in_flight busy_runtime @ [p]\<rparr>)"
    and s: "\<forall>i < length (rt_in_flight busy_runtime).
                fst (settle_query i generate_ok 5 (busy_runtime\<lparr>rt_in_flight := rt_in_flight busy_runtime @ [p]\<rparr>))
                  = fst (settle_query i generate_ok 5 busy_runtime)"
    and v: "isProcessing busy_pipeline \<longrightarrow> startVoiceInteraction_enter busy_pipeline = (Already_processing, busy_pipeline)"
    by blast
  from s l have "fst (settle_query 0 generate_ok 5 (busy_runtime\<lparr>rt_in_flight := rt_in_flight busy_runtime @ [p]\<rparr>))
                  = fst (settle_query 0 generate_ok 5 busy_runtime)" by simp
  with c f v b l show ?thesis by simp
qed

text \<open>
  Claim C3 as stated fails: with one query in flight a second call of \<open>query\<close> raises no
  error and is in flight as well; and a second \<open>startVoiceInteraction\<close> returns without
  an error.
\<close>

theorem second_query_admitted_counterexample:
  "length (rt_in_flight busy_runtime) = 1 \<and>
   fst (call_query embed_one 1 plain_query busy_runtime) = None \<and>
   length (rt_in_flight (snd (call_query embed_one 1 plain_query busy_runtime))) = 2 \<and>
   isProcessing busy_pipeline \<and>
   fst (startVoiceInteraction_enter busy_pipeline) = Already_processing"
  by (simp add: db_eval_defs rag_eval_defs tie_db_def busy_pipeline_def startVoiceInteraction_enter_def)

end
